theory Spec2Isabelle
  imports Main
begin

section \<open>JavaScript values used by the handlers\<close>

text \<open>
  A request field is either absent (\<open>undefined\<close>, here \<open>None\<close>) or a string, as the
  fields of a multipart form are; JSON bodies with values of other types are not
  covered.  A string is truthy when it is not empty; \<open>undefined\<close> is falsy.
\<close>

definition truthy :: "string option \<Rightarrow> bool" where
  "truthy v = (case v of None \<Rightarrow> False | Some s \<Rightarrow> s \<noteq> [])"

text \<open>\<open>a || b\<close> where \<open>b\<close> may itself be undefined.\<close>

definition js_or :: "string option \<Rightarrow> string option \<Rightarrow> string option" where
  "js_or a b = (if truthy a then a else b)"

text \<open>\<open>a || b\<close> where \<open>b\<close> is a string.\<close>

definition js_or_str :: "string option \<Rightarrow> string \<Rightarrow> string" where
  "js_or_str a b = (case a of None \<Rightarrow> b | Some s \<Rightarrow> if s \<noteq> [] then s else b)"

text \<open>The string conversion applied to the argument of \<open>Number.parseFloat\<close>.\<close>

definition to_string :: "string option \<Rightarrow> string" where
  "to_string v = (case v of None \<Rightarrow> ''undefined'' | Some s \<Rightarrow> s)"

definition startsWith :: "string \<Rightarrow> string \<Rightarrow> bool" where
  "startsWith pre s = (take (length pre) s = pre)"

text \<open>\<open>s.substr(start, len)\<close> for non-negative arguments.\<close>

definition substr :: "string \<Rightarrow> nat \<Rightarrow> nat \<Rightarrow> string" where
  "substr s start len = take len (drop start s)"

text \<open>\<open>xs.findIndex(P)\<close>; the source's \<open>-1\<close> is \<open>None\<close>.\<close>

fun findIndex :: "('a \<Rightarrow> bool) \<Rightarrow> 'a list \<Rightarrow> nat option" where
  "findIndex P [] = None"
| "findIndex P (x # xs) = (if P x then Some 0 else map_option Suc (findIndex P xs))"

text \<open>Decimal rendering of a number inside a template string.\<close>

definition digit :: "nat \<Rightarrow> char" where
  "digit n = ''0123456789'' ! (n mod 10)"

function show_nat :: "nat \<Rightarrow> string" where
  "show_nat n = (if n < 10 then [digit n] else show_nat (n div 10) @ [digit n])"
  by pat_completeness auto
termination
  by (relation "measure id") auto

declare show_nat.simps [simp del]

section \<open>Data model\<close>

record event =
  description :: string
  timestamp :: string
  location :: string
  completed :: bool

text \<open>
  A product record as the handlers build it.  The weight is whatever
  \<open>Number.parseFloat\<close> returns; the parser is a parameter of the handlers and \<open>'w\<close> is
  its result type.  Fields copied from the request may be undefined.
\<close>

record 'w product =
  trackingNumber :: string
  recipientName :: "string option"
  recipientAddress :: "string option"
  senderName :: "string option"
  weight :: 'w
  serviceType :: "string option"
  status :: "string option"
  estimatedDelivery :: "string option"
  packageImage :: string
  events :: "event list"
  createdAt :: string
  isGlobal :: bool

text \<open>\<open>req.body\<close>: the fields the handlers read.\<close>

record body =
  body_trackingNumber :: "string option"
  body_recipientName :: "string option"
  body_recipientAddress :: "string option"
  body_senderName :: "string option"
  body_weight :: "string option"
  body_serviceType :: "string option"
  body_status :: "string option"
  body_estimatedDelivery :: "string option"
  body_imageUrl :: "string option"

text \<open>
  The file part of a multipart request, within multer's \<open>fileSize\<close> limit: the two
  properties the configuration reads, and the content that is stored.
\<close>

record upload =
  originalname :: string
  mimetype :: string
  bytes :: string

text \<open>What a handler passes to \<open>res.json\<close>, paired with the status code.\<close>

datatype 'w json =
  Products_json "'w product list"
| Product_json "'w product"
| Message_json string
| Error_json string

type_synonym 'w response = "nat \<times> 'w json"

section \<open>The disk\<close>

text \<open>
  A path is the list of its segments below the root (POSIX separators).  A node is a
  directory, the products document (the JSON text of an array of records, kept as the
  array that \<open>JSON.stringify\<close> was given), or any other file with its content (an
  image, or text on which \<open>JSON.parse\<close> throws).
\<close>

type_synonym path = "string list"

datatype 'w node = Dir | Doc "'w product list" | Blob string

type_synonym 'w disk = "path \<Rightarrow> 'w node option"

text \<open>\<open>__dirname\<close> and the working directory of the process.\<close>

record env =
  dirname :: path
  cwd :: path

text \<open>
  What the outside world supplies during one request: the text of \<open>Math.random()\<close>, the
  two readings of the clock, and whether \<open>writeFileSync\<close> on the products file throws.
  \<open>writeFileSync\<close> opens the file with flag \<open>w\<close>, which truncates it: a write that
  throws before the file is open leaves it as it was (\<open>write_torn\<close> is \<open>None\<close>), one that
  throws later leaves the text \<open>t\<close> written so far (\<open>Some t\<close>), empty or a proper
  prefix of the document, on which \<open>JSON.parse\<close> throws.
\<close>

record io =
  math_random :: string
  now_event :: string
  now_created :: string
  write_fails :: bool
  write_torn :: "string option"

definition uploadsDir :: "env \<Rightarrow> path" where
  "uploadsDir e = dirname e @ [''uploads'']"

definition productsFile :: "env \<Rightarrow> path" where
  "productsFile e = dirname e @ [''products.json'']"

text \<open>Lines 15 to 25: the directory and the empty document are created when missing.\<close>

definition startup :: "env \<Rightarrow> 'w disk \<Rightarrow> 'w disk" where
  "startup e d =
     (let d1 = (if d (uploadsDir e) = None then d(uploadsDir e \<mapsto> Dir) else d)
      in if d1 (productsFile e) = None then d1(productsFile e \<mapsto> Doc []) else d1)"

subsection \<open>Paths\<close>

fun split_path :: "string \<Rightarrow> string list" where
  "split_path [] = [[]]"
| "split_path (c # cs) =
     (if c = CHR ''/'' then [] # split_path cs
      else (case split_path cs of [] \<Rightarrow> [[c]] | w # ws \<Rightarrow> (c # w) # ws))"

text \<open>
  Normalisation of an absolute path: empty and \<open>.\<close> segments vanish, \<open>..\<close> removes
  the segment before it and is dropped at the root.
\<close>

fun normalizeString :: "path \<Rightarrow> string list \<Rightarrow> path" where
  "normalizeString acc [] = acc"
| "normalizeString acc (s # ss) =
     (if s = [] \<or> s = ''.'' then normalizeString acc ss
      else if s = ''..'' then normalizeString (butlast acc) ss
      else normalizeString (acc @ [s]) ss)"

text \<open>
  \<open>path.join(dir, p)\<close> for a normalised absolute \<open>dir\<close>: the segments of the result and
  whether it ends in a separator.
\<close>

definition path_join :: "path \<Rightarrow> string \<Rightarrow> path \<times> bool" where
  "path_join dir p = (normalizeString dir (split_path p), p \<noteq> [] \<and> last p = CHR ''/'')"

text \<open>\<open>path.extname\<close>: from the last dot of the last component, unless that dot leads it.\<close>

definition extname :: "string \<Rightarrow> string" where
  "extname p =
     (let trimmed = rev (dropWhile (\<lambda>c. c = CHR ''/'') (rev p));
          base = rev (takeWhile (\<lambda>c. c \<noteq> CHR ''/'') (rev trimmed));
          ext = rev (takeWhile (\<lambda>c. c \<noteq> CHR ''.'') (rev base))
      in if CHR ''.'' \<notin> set base then []
         else if length ext + 1 = length base then []
         else if base = ''..'' then []
         else CHR ''.'' # ext)"

text \<open>A path with a trailing separator names a directory only.\<close>

definition existsSync :: "'w disk \<Rightarrow> path \<times> bool \<Rightarrow> bool" where
  "existsSync d q =
     (case d (fst q) of None \<Rightarrow> False | Some Dir \<Rightarrow> True | Some _ \<Rightarrow> \<not> snd q)"

text \<open>\<open>fs.unlinkSync\<close>; \<open>None\<close> when it throws.\<close>

definition unlinkSync :: "'w disk \<Rightarrow> path \<times> bool \<Rightarrow> 'w disk option" where
  "unlinkSync d q =
     (case d (fst q) of
        None \<Rightarrow> None
      | Some Dir \<Rightarrow> None
      | Some _ \<Rightarrow> if snd q then None else Some (d(fst q := None)))"

section \<open>Helper functions\<close>

text \<open>
  A read fault: \<open>readFileSync\<close> throws (no file, or a directory in its place) or
  \<open>JSON.parse\<close> throws on the text.
\<close>

definition read_fault :: "env \<Rightarrow> 'w disk \<Rightarrow> bool" where
  "read_fault e d = (case d (productsFile e) of Some (Doc ps) \<Rightarrow> False | _ \<Rightarrow> True)"

text \<open>
  Lines 56 to 74.  The \<open>catch\<close> branch of \<open>readProducts\<close> is its second case;
  \<open>writeProducts\<close> returns \<open>false\<close> when \<open>writeFileSync\<close> throws, with the file
  as that call left it.
\<close>

definition readProducts :: "env \<Rightarrow> 'w disk \<Rightarrow> 'w product list" where
  "readProducts e d = (case d (productsFile e) of Some (Doc ps) \<Rightarrow> ps | _ \<Rightarrow> [])"

definition writeProducts ::
  "env \<Rightarrow> io \<Rightarrow> 'w disk \<Rightarrow> 'w product list \<Rightarrow> bool \<times> 'w disk" where
  "writeProducts e w d products =
     (case d (productsFile e) of
        Some Dir \<Rightarrow> (False, d)
      | _ \<Rightarrow>
          if write_fails w
          then (case write_torn w of
                  None \<Rightarrow> (False, d)
                | Some t \<Rightarrow> (False, d(productsFile e \<mapsto> Blob t)))
          else (True, d(productsFile e \<mapsto> Doc products)))"

section \<open>The upload middleware\<close>

definition fileFilter :: "upload \<Rightarrow> bool" where
  "fileFilter file = startsWith ''image/'' (mimetype file)"

definition filename :: "env \<Rightarrow> 'w disk \<Rightarrow> upload \<Rightarrow> string" where
  "filename e d file =
     (let products = readProducts e d;
          imageNumber = length products + 1;
          extension = extname (originalname file)
      in ''image'' @ show_nat imageNumber @ extension)"

text \<open>
  \<open>upload.single("packageImage")\<close>: \<open>None\<close> when the middleware hands an error to the
  framework and the route handler does not run (the filter refuses the file, or the file
  cannot be created); otherwise \<open>req.file.filename\<close> (if a file came) and the disk with
  the file stored under \<open>uploads/\<close> of the working directory.
\<close>

definition upload_single ::
  "env \<Rightarrow> 'w disk \<Rightarrow> upload option \<Rightarrow> (string option \<times> 'w disk) option" where
  "upload_single e d up =
     (case up of
        None \<Rightarrow> Some (None, d)
      | Some file \<Rightarrow>
          if \<not> fileFilter file then None
          else (let name = filename e d file;
                    target = cwd e @ [''uploads'', name]
                in if d (cwd e @ [''uploads'']) \<noteq> Some Dir then None
                   else (case d target of
                           Some Dir \<Rightarrow> None
                         | _ \<Rightarrow> Some (Some name, d(target \<mapsto> Blob (bytes file))))))"

section \<open>Routes\<close>

definition get_products :: "env \<Rightarrow> 'w disk \<Rightarrow> 'w response" where
  "get_products e d = (200, Products_json (readProducts e d))"

definition get_product :: "env \<Rightarrow> 'w disk \<Rightarrow> string \<Rightarrow> 'w response" where
  "get_product e d tn =
     (case find (\<lambda>p. trackingNumber p = tn) (readProducts e d) of
        Some product \<Rightarrow> (200, Product_json product)
      | None \<Rightarrow> (404, Error_json ''Product not found''))"

definition productData ::
  "(string \<Rightarrow> 'w) \<Rightarrow> io \<Rightarrow> body \<Rightarrow> string option \<Rightarrow> 'w product" where
  "productData parseFloat w b file =
     \<lparr> trackingNumber = js_or_str (body_trackingNumber b) (substr (math_random w) 2 10),
       recipientName = body_recipientName b,
       recipientAddress = body_recipientAddress b,
       senderName = body_senderName b,
       weight = parseFloat (to_string (body_weight b)),
       serviceType = body_serviceType b,
       status = body_status b,
       estimatedDelivery = body_estimatedDelivery b,
       packageImage =
         (case file of
            Some name \<Rightarrow> ''/uploads/'' @ name
          | None \<Rightarrow> js_or_str (body_imageUrl b)
              ''https://images.unsplash.com/photo-1558618666-fcd25c85cd64?w=200&h=200&fit=crop&crop=center''),
       events =
         [\<lparr> description = ''Package created'',
            timestamp = now_event w,
            location = ''Origin facility'',
            completed = True \<rparr>],
       createdAt = now_created w,
       isGlobal = False \<rparr>"

definition post_products ::
  "(string \<Rightarrow> 'w) \<Rightarrow> env \<Rightarrow> io \<Rightarrow> 'w disk \<Rightarrow> body \<Rightarrow> string option
     \<Rightarrow> 'w response \<times> 'w disk" where
  "post_products parseFloat e w d b file =
     (let products = readProducts e d;
          pd = productData parseFloat w b file
      in if find (\<lambda>p. trackingNumber p = trackingNumber pd) products \<noteq> None
         then ((400, Error_json ''Tracking number already exists''), d)
         else (case writeProducts e w d (products @ [pd]) of
                 (True, d') \<Rightarrow> ((201, Product_json pd), d')
               | (False, d') \<Rightarrow> ((500, Error_json ''Failed to save product''), d')))"

definition updatedProduct ::
  "(string \<Rightarrow> 'w) \<Rightarrow> 'w product \<Rightarrow> body \<Rightarrow> string option \<Rightarrow> 'w product" where
  "updatedProduct parseFloat old b file =
     old \<lparr> recipientName := js_or (body_recipientName b) (recipientName old),
           recipientAddress := js_or (body_recipientAddress b) (recipientAddress old),
           senderName := js_or (body_senderName b) (senderName old),
           weight := (if truthy (body_weight b) then parseFloat (to_string (body_weight b))
                      else weight old),
           serviceType := js_or (body_serviceType b) (serviceType old),
           status := js_or (body_status b) (status old),
           estimatedDelivery := js_or (body_estimatedDelivery b) (estimatedDelivery old),
           packageImage :=
             (case file of
                Some name \<Rightarrow> ''/uploads/'' @ name
              | None \<Rightarrow> js_or_str (body_imageUrl b) (packageImage old)) \<rparr>"

definition put_products ::
  "(string \<Rightarrow> 'w) \<Rightarrow> env \<Rightarrow> io \<Rightarrow> 'w disk \<Rightarrow> string \<Rightarrow> body \<Rightarrow> string option
     \<Rightarrow> 'w response \<times> 'w disk" where
  "put_products parseFloat e w d tn b file =
     (let products = readProducts e d
      in case findIndex (\<lambda>p. trackingNumber p = tn) products of
           None \<Rightarrow> ((404, Error_json ''Product not found''), d)
         | Some index \<Rightarrow>
             (let up = updatedProduct parseFloat (products ! index) b file
              in case writeProducts e w d (products[index := up]) of
                   (True, d') \<Rightarrow> ((200, Product_json up), d')
                 | (False, d') \<Rightarrow> ((500, Error_json ''Failed to update product''), d')))"

text \<open>Lines 199 to 205: the image of a removed record; \<open>None\<close> when \<open>unlinkSync\<close> throws.\<close>

definition deleteImage :: "env \<Rightarrow> 'w disk \<Rightarrow> 'w product \<Rightarrow> 'w disk option" where
  "deleteImage e d deletedProduct =
     (if packageImage deletedProduct \<noteq> [] \<and> startsWith ''/uploads/'' (packageImage deletedProduct)
      then (let imagePath = path_join (dirname e) (packageImage deletedProduct)
            in if existsSync d imagePath then unlinkSync d imagePath else Some d)
      else Some d)"

definition delete_products ::
  "env \<Rightarrow> io \<Rightarrow> 'w disk \<Rightarrow> string \<Rightarrow> 'w response \<times> 'w disk" where
  "delete_products e w d tn =
     (let products = readProducts e d
      in case findIndex (\<lambda>p. trackingNumber p = tn) products of
           None \<Rightarrow> ((404, Error_json ''Product not found''), d)
         | Some index \<Rightarrow>
             (let deletedProduct = products ! index;
                  rest = take index products @ drop (Suc index) products
              in case deleteImage e d deletedProduct of
                   None \<Rightarrow> ((500, Error_json ''Internal server error''), d)
                 | Some d1 \<Rightarrow>
                     (case writeProducts e w d1 rest of
                        (True, d2) \<Rightarrow> ((200, Message_json ''Product deleted successfully''), d2)
                      | (False, d2) \<Rightarrow> ((500, Error_json ''Failed to delete product''), d2))))"

text \<open>A whole request: the middleware, then the route handler.\<close>

definition post_request ::
  "(string \<Rightarrow> 'w) \<Rightarrow> env \<Rightarrow> io \<Rightarrow> 'w disk \<Rightarrow> upload option \<Rightarrow> body
     \<Rightarrow> ('w response \<times> 'w disk) option" where
  "post_request parseFloat e w d up b =
     (case upload_single e d up of
        None \<Rightarrow> None
      | Some (file, d1) \<Rightarrow> Some (post_products parseFloat e w d1 b file))"


section \<open>Sequences of requests\<close>

text \<open>
  Insert requests served one after the other, each with its own outside world.  A request
  the middleware refuses does not reach the handler.
\<close>

fun inserts ::
  "(string \<Rightarrow> 'w) \<Rightarrow> env \<Rightarrow> 'w disk \<Rightarrow> (io \<times> upload option \<times> body) list \<Rightarrow> 'w disk" where
  "inserts parseFloat e d [] = d"
| "inserts parseFloat e d ((w, up, b) # rs) =
     (case post_request parseFloat e w d up b of
        None \<Rightarrow> inserts parseFloat e d rs
      | Some (r, d') \<Rightarrow> inserts parseFloat e d' rs)"

section \<open>Sample requests and disks\<close>

text \<open>
  Concrete inputs for the scenarios of the specification.  In them a weight is kept as
  the text it was given (the parser is \<open>id\<close>).
\<close>

definition env0 :: env where
  "env0 = \<lparr> dirname = [''app''], cwd = [''app''] \<rparr>"

definition io0 :: io where
  "io0 = \<lparr> math_random = ''0.8437261950483'', now_event = ''2025-01-01T00:00:00.000Z'',
           now_created = ''2025-01-01T00:00:00.001Z'', write_fails = False,
           write_torn = None \<rparr>"

definition no_fields :: body where
  "no_fields = \<lparr> body_trackingNumber = None, body_recipientName = None,
       body_recipientAddress = None, body_senderName = None, body_weight = None,
       body_serviceType = None, body_status = None, body_estimatedDelivery = None,
       body_imageUrl = None \<rparr>"

definition tn1_body :: body where
  "tn1_body = no_fields \<lparr> body_trackingNumber := Some ''TN1'', body_status := Some ''created'' \<rparr>"

text \<open>The server's directory right after start, and after one insert of \<open>TN1\<close>.\<close>

definition disk0 :: "string disk" where
  "disk0 = startup env0 ((\<lambda>p. None)([''app''] \<mapsto> Dir, [''app'', ''server.js''] \<mapsto> Blob ''const express''))"

definition disk1 :: "string disk" where
  "disk1 = inserts id env0 disk0 [(io0, None, tn1_body)]"

text \<open>Scenario 1 of the specification: no tracking number, weight \<open>2.5\<close>.\<close>

definition scenario1_body :: body where
  "scenario1_body = \<lparr> body_trackingNumber = None, body_recipientName = Some ''A'',
       body_recipientAddress = Some ''addr'', body_senderName = Some ''S'',
       body_weight = Some ''2.5'', body_serviceType = Some ''standard'',
       body_status = Some ''created'', body_estimatedDelivery = Some ''2025-01-01'',
       body_imageUrl = None \<rparr>"

text \<open>The record scenario 1 creates, and the \<open>TN1\<close> record of \<open>disk1\<close>.\<close>

definition rec0 :: "string product" where
  "rec0 = \<lparr> trackingNumber = ''8437261950'', recipientName = Some ''A'',
       recipientAddress = Some ''addr'', senderName = Some ''S'', weight = ''2.5'',
       serviceType = Some ''standard'', status = Some ''created'',
       estimatedDelivery = Some ''2025-01-01'',
       packageImage =
         ''https://images.unsplash.com/photo-1558618666-fcd25c85cd64?w=200&h=200&fit=crop&crop=center'',
       events = [\<lparr> description = ''Package created'', timestamp = ''2025-01-01T00:00:00.000Z'',
                   location = ''Origin facility'', completed = True \<rparr>],
       createdAt = ''2025-01-01T00:00:00.001Z'', isGlobal = False \<rparr>"

definition rec1 :: "string product" where
  "rec1 = \<lparr> trackingNumber = ''TN1'', recipientName = None, recipientAddress = None,
       senderName = None, weight = ''undefined'', serviceType = None,
       status = Some ''created'', estimatedDelivery = None,
       packageImage =
         ''https://images.unsplash.com/photo-1558618666-fcd25c85cd64?w=200&h=200&fit=crop&crop=center'',
       events = [\<lparr> description = ''Package created'', timestamp = ''2025-01-01T00:00:00.000Z'',
                   location = ''Origin facility'', completed = True \<rparr>],
       createdAt = ''2025-01-01T00:00:00.001Z'', isGlobal = False \<rparr>"

text \<open>Update payloads: an empty status; a status together with another tracking number.\<close>

definition empty_status_body :: body where
  "empty_status_body = no_fields \<lparr> body_status := Some [] \<rparr>"

definition other_key_body :: body where
  "other_key_body = no_fields \<lparr> body_trackingNumber := Some ''OTHER'', body_status := Some ''delivered'' \<rparr>"

text \<open>
  An insert of \<open>TN1\<close> with an uploaded image, which the middleware names
  \<open>image1.png\<close>, and the record it stores.
\<close>

definition png_upload :: upload where
  "png_upload = \<lparr> originalname = ''parcel.png'', mimetype = ''image/png'',
       bytes = ''PNG-1'' \<rparr>"

definition disk2 :: "string disk" where
  "disk2 = inserts id env0 disk0 [(io0, Some png_upload, tn1_body)]"

definition rec2 :: "string product" where
  "rec2 = rec1 \<lparr> packageImage := ''/uploads/image1.png'' \<rparr>"

text \<open>
  An insert of \<open>TN1\<close> whose image URL starts with the uploads prefix and climbs out of
  the uploads directory, and the record it stores.
\<close>

definition evil_body :: body where
  "evil_body = tn1_body \<lparr> body_imageUrl := Some ''/uploads/../server.js'' \<rparr>"

definition disk3 :: "string disk" where
  "disk3 = inserts id env0 disk0 [(io0, None, evil_body)]"

definition rec3 :: "string product" where
  "rec3 = rec1 \<lparr> packageImage := ''/uploads/../server.js'' \<rparr>"





definition rec4 :: "string product" where
  "rec4 = rec1 \<lparr> packageImage := ''/uploads/image2.png'' \<rparr>"

definition disk4 :: "string disk" where
  "disk4 = disk2([''app'', ''uploads'', ''image2.png''] \<mapsto> Blob ''PNG-2'',
                 productsFile env0 \<mapsto> Doc [rec4])"

section \<open>Basic facts\<close>

lemmas model_defs =
  env0_def io0_def no_fields_def disk0_def tn1_body_def startup_def uploadsDir_def productsFile_def
  post_request_def upload_single_def post_products_def productData_def readProducts_def
  writeProducts_def js_or_str_def js_or_def truthy_def substr_def to_string_def Let_def

lemma findIndex_None: "findIndex P xs = None \<longleftrightarrow> (\<forall>x\<in>set xs. \<not> P x)"
  by (induction xs) auto

lemma findIndex_Some:
  "findIndex P xs = Some i \<Longrightarrow> i < length xs \<and> P (xs ! i) \<and> (\<forall>j<i. \<not> P (xs ! j))"
proof (induction xs arbitrary: i)
  case Nil
  then show ?case by simp
next
  case (Cons x xs)
  show ?case
  proof (cases "P x")
    case True
    with Cons.prems show ?thesis by simp
  next
    case False
    with Cons.prems obtain k where k: "findIndex P xs = Some k" "i = Suc k"
      by auto
    from Cons.IH [OF k(1)] False k(2) show ?thesis
      by (auto simp: less_Suc_eq_0_disj)
  qed
qed

lemma find_key_None:
  "find (\<lambda>p. trackingNumber p = k) ps = None \<longleftrightarrow> k \<notin> set (map trackingNumber ps)"
  by (auto simp: find_None_iff)

lemma filename_not_products: "filename e d file \<noteq> ''products.json''"
  by (simp add: filename_def Let_def)

lemma upload_target_not_productsFile:
  "cwd e @ [''uploads'', filename e d file] \<noteq> productsFile e"
proof
  assume "cwd e @ [''uploads'', filename e d file] = productsFile e"
  then have "last (cwd e @ [''uploads'', filename e d file]) = last (productsFile e)"
    by simp
  then show False
    using filename_not_products [of e d "file"] by (simp add: productsFile_def)
qed

lemma upload_single_readProducts:
  assumes "upload_single e d up = Some (file, d1)"
  shows "readProducts e d1 = readProducts e d"
proof (cases up)
  case None
  with assms show ?thesis by (simp add: upload_single_def)
next
  case (Some x)
  from upload_target_not_productsFile [of e d x]
  have "productsFile e \<noteq> cwd e @ [''uploads'', filename e d x]" by metis
  with Some assms show ?thesis
    by (auto simp: upload_single_def readProducts_def Let_def
        split: option.splits if_splits node.splits)
qed

lemma readProducts_written:
  "writeProducts e w d ps = (True, d') \<Longrightarrow> readProducts e d' = ps"
  by (auto simp: writeProducts_def readProducts_def split: if_splits option.splits node.splits)

lemma writeProducts_failed:
  "writeProducts e w d ps = (False, d') \<Longrightarrow>
     d' = d \<or> (\<exists>t. write_fails w \<and> write_torn w = Some t \<and> d' = d(productsFile e \<mapsto> Blob t))"
  by (auto simp: writeProducts_def split: if_splits option.splits node.splits)

lemma writeProducts_failed_store:
  assumes "writeProducts e w d ps = (False, d')"
  shows "readProducts e d' = readProducts e d \<or>
         (write_fails w \<and> write_torn w \<noteq> None \<and> readProducts e d' = [])"
  using writeProducts_failed [OF assms] by (auto simp: readProducts_def)

lemma post_products_store:
  assumes "post_products pf e w d b file = (rep, d')"
  shows "readProducts e d' = readProducts e d \<or> readProducts e d' = [] \<or>
     (trackingNumber (productData pf w b file) \<notin> set (map trackingNumber (readProducts e d)) \<and>
      readProducts e d' = readProducts e d @ [productData pf w b file])"
proof (cases "find (\<lambda>p. trackingNumber p = trackingNumber (productData pf w b file))
                (readProducts e d) \<noteq> None")
  case True
  with assms show ?thesis by (simp add: post_products_def Let_def)
next
  case False
  obtain ok d1 where wr: "writeProducts e w d (readProducts e d @ [productData pf w b file]) = (ok, d1)"
    by (cases "writeProducts e w d (readProducts e d @ [productData pf w b file])")
  show ?thesis
  proof (cases ok)
    case True
    with wr False assms have "d' = d1" by (simp add: post_products_def Let_def)
    with wr True False readProducts_written [of e w d _ d1] show ?thesis
      by (simp add: find_key_None)
  next
    case no: False
    with wr False assms have "d' = d1" by (simp add: post_products_def Let_def)
    with wr no writeProducts_failed_store [of e w d _ d1] show ?thesis by auto
  qed
qed

lemma post_products_distinct:
  assumes "distinct (map trackingNumber (readProducts e d))"
  shows "distinct (map trackingNumber (readProducts e (snd (post_products pf e w d b file))))"
proof -
  obtain rep d' where p: "post_products pf e w d b file = (rep, d')"
    by (cases "post_products pf e w d b file")
  from post_products_store [OF p] assms show ?thesis
    unfolding p by auto
qed

lemma post_request_distinct:
  assumes "distinct (map trackingNumber (readProducts e d))"
    and "post_request pf e w d up b = Some (rep, d')"
  shows "distinct (map trackingNumber (readProducts e d'))"
proof -
  from assms(2) obtain f d1 where u: "upload_single e d up = Some (f, d1)"
    and p: "post_products pf e w d1 b f = (rep, d')"
    by (auto simp: post_request_def split: option.splits)
  from upload_single_readProducts [OF u] assms(1)
  have "distinct (map trackingNumber (readProducts e d1))" by simp
  from post_products_distinct [OF this, of pf w b f] p show ?thesis by simp
qed

lemma inserts_distinct:
  "distinct (map trackingNumber (readProducts e d)) \<Longrightarrow>
   distinct (map trackingNumber (readProducts e (inserts pf e d rs)))"
proof (induction rs arbitrary: d)
  case Nil
  then show ?case by simp
next
  case (Cons r rs)
  obtain w up b where r: "r = (w, up, b)" by (cases r)
  show ?case
  proof (cases "post_request pf e w d up b")
    case None
    with Cons r show ?thesis by simp
  next
    case (Some a)
    obtain rep d' where a: "a = (rep, d')" by (cases a)
    from post_request_distinct [OF Cons.prems] Some a
    have "distinct (map trackingNumber (readProducts e d'))" by simp
    from Cons.IH [OF this] Some a r show ?thesis by simp
  qed
qed

lemma post_request_conflict:
  assumes "js_or_str (body_trackingNumber b) (substr (math_random w) 2 10)
             \<in> set (map trackingNumber (readProducts e d))"
     and "post_request pf e w d up b = Some (rep, d')"
  shows "rep = (400, Error_json ''Tracking number already exists'') \<and>
         readProducts e d' = readProducts e d"
proof -
  from assms(2) obtain f d1 where u: "upload_single e d up = Some (f, d1)"
    and p: "post_products pf e w d1 b f = (rep, d')"
    by (auto simp: post_request_def split: option.splits)
  have k: "trackingNumber (productData pf w b f)
             = js_or_str (body_trackingNumber b) (substr (math_random w) 2 10)"
    by (simp add: productData_def)
  from assms(1) upload_single_readProducts [OF u] k
  have "find (\<lambda>p. trackingNumber p = trackingNumber (productData pf w b f)) (readProducts e d1) \<noteq> None"
    by (simp add: find_key_None)
  with p have "rep = (400, Error_json ''Tracking number already exists'') \<and> d' = d1"
    by (auto simp: post_products_def Let_def)
  with upload_single_readProducts [OF u] show ?thesis by simp
qed

lemma readProducts_disk0: "readProducts env0 disk0 = []"
  by (simp add: model_defs)

lemma readProducts_disk1: "readProducts env0 disk1 = [productData id io0 tn1_body None]"
  by (simp add: disk1_def model_defs)

section \<open>Unique tracking numbers\<close>

text \<open>
  Claim C1.  Whatever insert requests are served, in whatever order and with whatever
  uploads, the tracking numbers in the products file stay pairwise different if they were
  so before (as they are in the empty document the server starts with).  An insert whose
  key, supplied or generated, is already in the file is answered with status 400,
  \<open>Tracking number already exists\<close>: the handler leaves the disk as it found it, and the
  whole request leaves the stored collection as it was.
\<close>

theorem insert_keeps_keys_unique:
  "(distinct (map trackingNumber (readProducts e d)) \<longrightarrow>
      distinct (map trackingNumber (readProducts e (inserts parseFloat e d rs)))) \<and>
   (js_or_str (body_trackingNumber b) (substr (math_random w) 2 10)
        \<in> set (map trackingNumber (readProducts e d)) \<longrightarrow>
      post_products parseFloat e w d b file
        = ((400, Error_json ''Tracking number already exists''), d)) \<and>
   (js_or_str (body_trackingNumber b) (substr (math_random w) 2 10)
        \<in> set (map trackingNumber (readProducts e d)) \<longrightarrow>
      post_request parseFloat e w d up b = Some (rep, d') \<longrightarrow>
        rep = (400, Error_json ''Tracking number already exists'') \<and>
        readProducts e d' = readProducts e d)"
proof (intro conjI impI)
  assume "distinct (map trackingNumber (readProducts e d))"
  then show "distinct (map trackingNumber (readProducts e (inserts parseFloat e d rs)))"
    by (rule inserts_distinct)
next
  assume k: "js_or_str (body_trackingNumber b) (substr (math_random w) 2 10)
        \<in> set (map trackingNumber (readProducts e d))"
  have "trackingNumber (productData parseFloat w b file)
          = js_or_str (body_trackingNumber b) (substr (math_random w) 2 10)"
    by (simp add: productData_def)
  with k have "find (\<lambda>p. trackingNumber p = trackingNumber (productData parseFloat w b file))
                 (readProducts e d) \<noteq> None"
    by (simp add: find_key_None)
  then show "post_products parseFloat e w d b file
        = ((400, Error_json ''Tracking number already exists''), d)"
    by (simp add: post_products_def Let_def)
next
  assume "js_or_str (body_trackingNumber b) (substr (math_random w) 2 10)
        \<in> set (map trackingNumber (readProducts e d))"
    and "post_request parseFloat e w d up b = Some (rep, d')"
  then show "rep = (400, Error_json ''Tracking number already exists'')"
    and "readProducts e d' = readProducts e d"
    using post_request_conflict by blast+
qed

theorem insert_keeps_keys_unique_witness:
  "distinct (map trackingNumber (readProducts env0 disk0)) \<and>
   distinct (map trackingNumber (readProducts env0
      (inserts id env0 disk0 [(io0, None, tn1_body), (io0, None, tn1_body)]))) \<and>
   js_or_str (body_trackingNumber tn1_body) (substr (math_random io0) 2 10)
      \<in> set (map trackingNumber (readProducts env0 disk1)) \<and>
   post_products id env0 io0 disk1 tn1_body None
      = ((400, Error_json ''Tracking number already exists''), disk1) \<and>
   post_request id env0 io0 disk1 None tn1_body
      = Some ((400, Error_json ''Tracking number already exists''), disk1) \<and>
   readProducts env0 disk1 = [productData id io0 tn1_body None]"
proof -
  have h1: "distinct (map trackingNumber (readProducts env0 disk0))"
    by (simp add: readProducts_disk0)
  have h2: "js_or_str (body_trackingNumber tn1_body) (substr (math_random io0) 2 10)
      \<in> set (map trackingNumber (readProducts env0 disk1))"
    by (simp add: readProducts_disk1) (simp add: model_defs)
  have h3: "post_request id env0 io0 disk1 None tn1_body
      = Some (post_products id env0 io0 disk1 tn1_body None)"
    by (simp add: post_request_def upload_single_def)
  obtain r d where rd: "post_products id env0 io0 disk1 tn1_body None = (r, d)"
    by (cases "post_products id env0 io0 disk1 tn1_body None")
  from insert_keeps_keys_unique [of env0 disk0 id "[(io0, None, tn1_body), (io0, None, tn1_body)]"
      tn1_body io0 "None" "None" r d] h1
  have c1: "distinct (map trackingNumber (readProducts env0
      (inserts id env0 disk0 [(io0, None, tn1_body), (io0, None, tn1_body)])))"
    by blast
  from insert_keeps_keys_unique [of env0 disk1 id "[]" tn1_body io0 "None" "None" r d] h2
  have c2: "post_products id env0 io0 disk1 tn1_body None
      = ((400, Error_json ''Tracking number already exists''), disk1)"
    by blast
  from h1 h2 h3 c1 c2 readProducts_disk1 show ?thesis by simp
qed

lemma readProducts_disk1_rec1: "readProducts env0 disk1 = [rec1]"
  by (simp add: disk1_def rec1_def model_defs)

lemma disk1_productsFile: "disk1 (productsFile env0) = Some (Doc [rec1])"
  by (simp add: disk1_def rec1_def model_defs)

lemma put_products_found:
  assumes "findIndex (\<lambda>p. trackingNumber p = tn) (readProducts e d) = Some i"
    and "\<not> write_fails w"
  shows "put_products parseFloat e w d tn b file =
           ((200, Product_json (updatedProduct parseFloat (readProducts e d ! i) b file)),
            d(productsFile e \<mapsto>
                Doc ((readProducts e d)[i := updatedProduct parseFloat (readProducts e d ! i) b file])))"
proof -
  from assms(1) have "readProducts e d \<noteq> []" by auto
  then obtain ps where "d (productsFile e) = Some (Doc ps)"
    by (auto simp: readProducts_def split: option.splits node.splits)
  with assms show ?thesis
    by (simp add: put_products_def writeProducts_def Let_def)
qed

lemma readProducts_upd: "readProducts e (d(productsFile e \<mapsto> Doc ps)) = ps"
  by (simp add: readProducts_def)

section \<open>Reading a damaged store\<close>

text \<open>
  Claim C6.  When reading the products file faults (the file is missing, is not a file, or
  holds text that does not parse), \<open>readProducts\<close> yields the empty list and nothing is
  raised: the listing route answers 200 with an empty array and the lookup route answers
  as for an empty store, 404 \<open>Product not found\<close>.
\<close>

theorem read_fault_gives_empty_store:
  assumes "read_fault e d"
  shows "readProducts e d = [] \<and>
         get_products e d = (200, Products_json []) \<and>
         get_product e d tn = (404, Error_json ''Product not found'')"
  using assms
  by (auto simp: read_fault_def readProducts_def get_products_def get_product_def
      split: option.splits node.splits)

theorem read_fault_gives_empty_store_witness:
  "read_fault env0 (disk1(productsFile env0 \<mapsto> Blob ''[{'')) \<and>
   read_fault env0 (disk1(productsFile env0 := None)) \<and>
   \<not> read_fault env0 disk1 \<and>
   get_products env0 (disk1(productsFile env0 \<mapsto> Blob ''[{'')) = (200, Products_json []) \<and>
   get_product env0 (disk1(productsFile env0 := None)) ''TN1''
     = (404, Error_json ''Product not found'') \<and>
   get_product env0 disk1 ''TN1'' = (200, Product_json rec1)"
proof -
  have h1: "read_fault env0 (disk1(productsFile env0 \<mapsto> Blob ''[{''))"
    and h2: "read_fault env0 (disk1(productsFile env0 := None))"
    by (simp_all add: read_fault_def)
  have h3: "\<not> read_fault env0 disk1"
    by (simp add: read_fault_def disk1_productsFile)
  have h4: "get_product env0 disk1 ''TN1'' = (200, Product_json rec1)"
    by (simp add: get_product_def readProducts_disk1_rec1) (simp add: rec1_def)
  from read_fault_gives_empty_store [OF h1] read_fault_gives_empty_store [OF h2, of "''TN1''"]
    h1 h2 h3 h4
  show ?thesis by simp
qed

section \<open>Inserting without a tracking number\<close>

text \<open>
  Claim C7.  When the request supplies no tracking number (none, or an empty one), the
  record an insert returns with status 201 has the generated key (ten characters of the
  text of \<open>Math.random()\<close>, from its third character on), the weight
  \<open>Number.parseFloat\<close> gives for the supplied weight text, exactly one event,
  \<open>Package created\<close>, a creation time stamp, and \<open>isGlobal\<close> false.  Such a record is
  returned whenever the generated key is not yet in the store and the write succeeds.
\<close>

theorem insert_without_key_seeds_record:
  assumes "\<not> truthy (body_trackingNumber b)"
  shows "(post_products parseFloat e w d b file = ((201, Product_json r), d') \<longrightarrow>
            trackingNumber r = substr (math_random w) 2 10 \<and>
            weight r = parseFloat (to_string (body_weight b)) \<and>
            events r = [\<lparr> description = ''Package created'', timestamp = now_event w,
                          location = ''Origin facility'', completed = True \<rparr>] \<and>
            createdAt r = now_created w \<and>
            isGlobal r = False) \<and>
         (substr (math_random w) 2 10 \<notin> set (map trackingNumber (readProducts e d)) \<and>
          \<not> write_fails w \<and> d (productsFile e) \<noteq> Some Dir \<longrightarrow>
            fst (post_products parseFloat e w d b file)
              = (201, Product_json (productData parseFloat w b file)))"
proof -
  have k: "trackingNumber (productData parseFloat w b file) = substr (math_random w) 2 10"
    using assms by (auto simp: productData_def js_or_str_def truthy_def split: option.splits)
  have a: "post_products parseFloat e w d b file = ((201, Product_json r), d') \<Longrightarrow>
             r = productData parseFloat w b file"
    by (auto simp: post_products_def Let_def split: if_splits prod.splits bool.splits)
  have b: "substr (math_random w) 2 10 \<notin> set (map trackingNumber (readProducts e d)) \<Longrightarrow>
          \<not> write_fails w \<Longrightarrow> d (productsFile e) \<noteq> Some Dir \<Longrightarrow>
            fst (post_products parseFloat e w d b file)
              = (201, Product_json (productData parseFloat w b file))"
    using k
    by (auto simp: post_products_def Let_def find_key_None writeProducts_def
        split: option.splits node.splits)
  show ?thesis
  proof (intro conjI impI)
    assume p: "post_products parseFloat e w d b file = ((201, Product_json r), d')"
    from a [OF p] k show "trackingNumber r = substr (math_random w) 2 10" by simp
    from a [OF p] show "weight r = parseFloat (to_string (body_weight b))"
      by (simp add: productData_def)
    from a [OF p] show "events r = [\<lparr> description = ''Package created'', timestamp = now_event w,
                          location = ''Origin facility'', completed = True \<rparr>]"
      by (simp add: productData_def)
    from a [OF p] show "createdAt r = now_created w" by (simp add: productData_def)
    from a [OF p] show "isGlobal r = False" by (simp add: productData_def)
  next
    assume "substr (math_random w) 2 10 \<notin> set (map trackingNumber (readProducts e d)) \<and>
          \<not> write_fails w \<and> d (productsFile e) \<noteq> Some Dir"
    with b show "fst (post_products parseFloat e w d b file)
              = (201, Product_json (productData parseFloat w b file))" by blast
  qed
qed

theorem insert_without_key_seeds_record_witness:
  "\<not> truthy (body_trackingNumber scenario1_body) \<and>
   post_products id env0 io0 disk0 scenario1_body None
     = ((201, Product_json rec0), disk0(productsFile env0 \<mapsto> Doc [rec0])) \<and>
   trackingNumber rec0 = substr (math_random io0) 2 10 \<and>
   weight rec0 = id (to_string (body_weight scenario1_body)) \<and>
   length (events rec0) = 1 \<and>
   isGlobal rec0 = False \<and>
   substr (math_random io0) 2 10 \<notin> set (map trackingNumber (readProducts env0 disk0)) \<and>
   \<not> write_fails io0 \<and> disk0 (productsFile env0) \<noteq> Some Dir"
proof -
  have h: "\<not> truthy (body_trackingNumber scenario1_body)"
    by (simp add: scenario1_body_def truthy_def)
  have p: "post_products id env0 io0 disk0 scenario1_body None
     = ((201, Product_json rec0), disk0(productsFile env0 \<mapsto> Doc [rec0]))"
    by (simp add: rec0_def scenario1_body_def model_defs)
  have q: "substr (math_random io0) 2 10 \<notin> set (map trackingNumber (readProducts env0 disk0)) \<and>
   \<not> write_fails io0 \<and> disk0 (productsFile env0) \<noteq> Some Dir"
    by (simp add: model_defs)
  from insert_without_key_seeds_record [OF h, of id env0 io0 disk0 "None" rec0
      "disk0(productsFile env0 \<mapsto> Doc [rec0])"] p
  have "trackingNumber rec0 = substr (math_random io0) 2 10 \<and>
        weight rec0 = id (to_string (body_weight scenario1_body)) \<and>
        isGlobal rec0 = False \<and>
        events rec0 = [\<lparr> description = ''Package created'', timestamp = now_event io0,
                          location = ''Origin facility'', completed = True \<rparr>]"
    by blast
  with h p q show ?thesis by simp
qed

section \<open>Updating a record\<close>

text \<open>
  Claim C3, as the handler does it.  For an existing key and a write that succeeds, the
  update answers 200 with the merged record and stores it in the place of the old one.
  A field of the payload overwrites the stored one when it is present and not empty
  (\<open>a || b\<close> keeps \<open>b\<close> for an empty string as for a missing field); every other field
  keeps its prior value, and so do the tracking number, the events, the creation time
  and \<open>isGlobal\<close>.  In particular an update with nothing but a non-empty status changes
  the status and nothing else.
\<close>

theorem update_merges_fields:
  assumes "findIndex (\<lambda>p. trackingNumber p = tn) (readProducts e d) = Some i"
    and "\<not> write_fails w"
  shows "\<exists>r d'. put_products parseFloat e w d tn b file = ((200, Product_json r), d') \<and>
     readProducts e d' = (readProducts e d)[i := r] \<and>
     recipientName r = (if truthy (body_recipientName b) then body_recipientName b
                        else recipientName (readProducts e d ! i)) \<and>
     recipientAddress r = (if truthy (body_recipientAddress b) then body_recipientAddress b
                           else recipientAddress (readProducts e d ! i)) \<and>
     senderName r = (if truthy (body_senderName b) then body_senderName b
                     else senderName (readProducts e d ! i)) \<and>
     weight r = (if truthy (body_weight b) then parseFloat (to_string (body_weight b))
                 else weight (readProducts e d ! i)) \<and>
     serviceType r = (if truthy (body_serviceType b) then body_serviceType b
                      else serviceType (readProducts e d ! i)) \<and>
     status r = (if truthy (body_status b) then body_status b
                 else status (readProducts e d ! i)) \<and>
     estimatedDelivery r = (if truthy (body_estimatedDelivery b) then body_estimatedDelivery b
                            else estimatedDelivery (readProducts e d ! i)) \<and>
     packageImage r = (case file of Some name \<Rightarrow> ''/uploads/'' @ name
                       | None \<Rightarrow> js_or_str (body_imageUrl b) (packageImage (readProducts e d ! i))) \<and>
     trackingNumber r = trackingNumber (readProducts e d ! i) \<and>
     events r = events (readProducts e d ! i) \<and>
     createdAt r = createdAt (readProducts e d ! i) \<and>
     isGlobal r = isGlobal (readProducts e d ! i) \<and>
     (\<forall>v. b = no_fields \<lparr> body_status := Some v \<rparr> \<and> v \<noteq> [] \<and> file = None \<longrightarrow>
          r = (readProducts e d ! i) \<lparr> status := Some v \<rparr>)"
proof -
  let ?old = "readProducts e d ! i"
  let ?r = "updatedProduct parseFloat ?old b file"
  let ?d' = "d(productsFile e \<mapsto> Doc ((readProducts e d)[i := ?r]))"
  have p: "put_products parseFloat e w d tn b file = ((200, Product_json ?r), ?d')"
    using assms by (rule put_products_found)
  have s: "readProducts e ?d' = (readProducts e d)[i := ?r]"
    by (rule readProducts_upd)
  have f: "recipientName ?r = (if truthy (body_recipientName b) then body_recipientName b
                        else recipientName ?old)"
     "recipientAddress ?r = (if truthy (body_recipientAddress b) then body_recipientAddress b
                           else recipientAddress ?old)"
     "senderName ?r = (if truthy (body_senderName b) then body_senderName b
                     else senderName ?old)"
     "weight ?r = (if truthy (body_weight b) then parseFloat (to_string (body_weight b))
                 else weight ?old)"
     "serviceType ?r = (if truthy (body_serviceType b) then body_serviceType b
                      else serviceType ?old)"
     "status ?r = (if truthy (body_status b) then body_status b
                 else status ?old)"
     "estimatedDelivery ?r = (if truthy (body_estimatedDelivery b) then body_estimatedDelivery b
                            else estimatedDelivery ?old)"
     "packageImage ?r = (case file of Some name \<Rightarrow> ''/uploads/'' @ name
                       | None \<Rightarrow> js_or_str (body_imageUrl b) (packageImage ?old))"
    by (simp_all add: updatedProduct_def js_or_def)
  have g: "trackingNumber ?r = trackingNumber ?old" "events ?r = events ?old"
     "createdAt ?r = createdAt ?old" "isGlobal ?r = isGlobal ?old"
    by (simp_all add: updatedProduct_def)
  have h: "\<forall>v. b = no_fields \<lparr> body_status := Some v \<rparr> \<and> v \<noteq> [] \<and> file = None \<longrightarrow>
          ?r = ?old \<lparr> status := Some v \<rparr>"
    by (simp add: updatedProduct_def js_or_def js_or_str_def truthy_def no_fields_def)
  from p s f g h show ?thesis by blast
qed

theorem update_merges_fields_witness:
  "findIndex (\<lambda>p. trackingNumber p = ''TN1'') (readProducts env0 disk1) = Some 0 \<and>
   \<not> write_fails io0 \<and>
   fst (put_products id env0 io0 disk1 ''TN1'' (no_fields \<lparr> body_status := Some ''delivered'' \<rparr>) None)
     = (200, Product_json (rec1 \<lparr> status := Some ''delivered'' \<rparr>))"
proof -
  have h1: "findIndex (\<lambda>p. trackingNumber p = ''TN1'') (readProducts env0 disk1) = Some 0"
    by (simp add: readProducts_disk1_rec1) (simp add: rec1_def)
  have h2: "\<not> write_fails io0" by (simp add: io0_def)
  from update_merges_fields [OF h1 h2, of id "no_fields \<lparr> body_status := Some ''delivered'' \<rparr>" "None"]
  have "fst (put_products id env0 io0 disk1 ''TN1'' (no_fields \<lparr> body_status := Some ''delivered'' \<rparr>) None)
     = (200, Product_json ((readProducts env0 disk1 ! 0) \<lparr> status := Some ''delivered'' \<rparr>))"
    by auto
  with h1 h2 show ?thesis by (simp add: readProducts_disk1_rec1)
qed

text \<open>
  A status that is supplied but empty is not written: the record keeps \<open>created\<close>.
\<close>

theorem update_empty_status_counterexample:
  "readProducts env0 disk1 = [rec1] \<and>
   status rec1 = Some ''created'' \<and>
   body_status empty_status_body = Some [] \<and>
   fst (put_products id env0 io0 disk1 ''TN1'' empty_status_body None) = (200, Product_json rec1)"
proof -
  have h1: "findIndex (\<lambda>p. trackingNumber p = ''TN1'') (readProducts env0 disk1) = Some 0"
    by (simp add: readProducts_disk1_rec1) (simp add: rec1_def)
  have h2: "\<not> write_fails io0" by (simp add: io0_def)
  have "updatedProduct id rec1 empty_status_body None = rec1"
    by (simp add: updatedProduct_def empty_status_body_def no_fields_def js_or_def js_or_str_def
        truthy_def rec1_def)
  with put_products_found [OF h1 h2, of id empty_status_body "None"]
  have "fst (put_products id env0 io0 disk1 ''TN1'' empty_status_body None) = (200, Product_json rec1)"
    by (simp add: readProducts_disk1_rec1)
  then show ?thesis
    by (simp add: readProducts_disk1_rec1) (simp add: rec1_def empty_status_body_def)
qed

text \<open>
  Claim C8.  An update never changes a tracking number, whatever the payload supplies.
  The record returned with status 200 carries the key of the route, which was in the
  store, and the keys of the stored collection are then the same list as before.  They
  are the same list after every other outcome too, with one exception that has nothing
  to do with the payload: a failing write that has left the file truncated is answered
  with 500 and the store reads as empty.
\<close>

theorem update_keeps_trackingNumber:
  "(map trackingNumber (readProducts e (snd (put_products parseFloat e w d tn b file)))
      = map trackingNumber (readProducts e d) \<or>
    (write_fails w \<and> write_torn w \<noteq> None \<and>
     fst (put_products parseFloat e w d tn b file)
       = (500, Error_json ''Failed to update product'') \<and>
     readProducts e (snd (put_products parseFloat e w d tn b file)) = [])) \<and>
   (fst (put_products parseFloat e w d tn b file) = (200, Product_json r) \<longrightarrow>
      trackingNumber r = tn \<and> tn \<in> set (map trackingNumber (readProducts e d)) \<and>
      map trackingNumber (readProducts e (snd (put_products parseFloat e w d tn b file)))
        = map trackingNumber (readProducts e d))"
proof (cases "findIndex (\<lambda>p. trackingNumber p = tn) (readProducts e d)")
  case None
  then show ?thesis by (simp add: put_products_def)
next
  case (Some i)
  let ?old = "readProducts e d ! i"
  let ?r = "updatedProduct parseFloat ?old b file"
  from findIndex_Some [OF Some] have i: "i < length (readProducts e d)"
    and t: "trackingNumber ?old = tn" by auto
  have k: "trackingNumber ?r = trackingNumber ?old" by (simp add: updatedProduct_def)
  have m: "map trackingNumber ((readProducts e d)[i := ?r]) = map trackingNumber (readProducts e d)"
    using i k by (simp add: map_update list_update_same_conv)
  obtain ok d' where wr: "writeProducts e w d ((readProducts e d)[i := ?r]) = (ok, d')"
    by (cases "writeProducts e w d ((readProducts e d)[i := ?r])")
  show ?thesis
  proof (cases ok)
    case True
    with wr Some have p: "put_products parseFloat e w d tn b file = ((200, Product_json ?r), d')"
      by (simp add: put_products_def Let_def)
    from wr True have "readProducts e d' = (readProducts e d)[i := ?r]"
      by (simp add: readProducts_written)
    have mem: "tn \<in> set (map trackingNumber (readProducts e d))"
      using i t by (metis length_map nth_map nth_mem)
    from k t have kt: "trackingNumber ?r = tn" by simp
    from p have "snd (put_products parseFloat e w d tn b file) = d'"
      and "fst (put_products parseFloat e w d tn b file) = (200, Product_json ?r)" by simp_all
    with \<open>readProducts e d' = (readProducts e d)[i := ?r]\<close> m kt mem show ?thesis
      by auto
  next
    case False
    with wr Some have p: "put_products parseFloat e w d tn b file
        = ((500, Error_json ''Failed to update product''), d')"
      by (simp add: put_products_def Let_def)
    from wr False have "writeProducts e w d ((readProducts e d)[i := ?r]) = (False, d')"
      by simp
    then have st: "readProducts e d' = readProducts e d \<or>
         (write_fails w \<and> write_torn w \<noteq> None \<and> readProducts e d' = [])"
      by (rule writeProducts_failed_store)
    with p show ?thesis by auto
  qed
qed

theorem update_keeps_trackingNumber_witness:
  "body_trackingNumber other_key_body = Some ''OTHER'' \<and>
   fst (put_products id env0 io0 disk1 ''TN1'' other_key_body None)
     = (200, Product_json (rec1 \<lparr> status := Some ''delivered'' \<rparr>)) \<and>
   trackingNumber (rec1 \<lparr> status := Some ''delivered'' \<rparr>) = ''TN1'' \<and>
   map trackingNumber (readProducts env0 (snd (put_products id env0 io0 disk1 ''TN1'' other_key_body None)))
     = [''TN1'']"
proof -
  have h1: "findIndex (\<lambda>p. trackingNumber p = ''TN1'') (readProducts env0 disk1) = Some 0"
    by (simp add: readProducts_disk1_rec1) (simp add: rec1_def)
  have h2: "\<not> write_fails io0" by (simp add: io0_def)
  have "updatedProduct id rec1 other_key_body None = rec1 \<lparr> status := Some ''delivered'' \<rparr>"
    by (simp add: updatedProduct_def other_key_body_def no_fields_def js_or_def js_or_str_def
        truthy_def rec1_def)
  with put_products_found [OF h1 h2, of id other_key_body "None"]
  have p: "fst (put_products id env0 io0 disk1 ''TN1'' other_key_body None)
     = (200, Product_json (rec1 \<lparr> status := Some ''delivered'' \<rparr>))"
    by (simp add: readProducts_disk1_rec1)
  have b: "body_trackingNumber other_key_body = Some ''OTHER''"
    by (simp add: other_key_body_def)
  from update_keeps_trackingNumber [of env0 id io0 disk1 "''TN1''" other_key_body "None"
      "rec1 \<lparr> status := Some ''delivered'' \<rparr>"] p
  have "trackingNumber (rec1 \<lparr> status := Some ''delivered'' \<rparr>) = ''TN1'' \<and>
     map trackingNumber (readProducts env0 (snd (put_products id env0 io0 disk1 ''TN1'' other_key_body None)))
       = map trackingNumber (readProducts env0 disk1)"
    by blast
  with p b show ?thesis by (simp add: readProducts_disk1_rec1 rec1_def)
qed

lemma filename_png: "filename env0 disk0 png_upload = ''image1.png''"
  by (simp add: filename_def png_upload_def extname_def show_nat.simps [of "Suc 0"] digit_def
      readProducts_disk0 Let_def)

lemma disk2_eq:
  "disk2 = disk0([''app'', ''uploads'', ''image1.png''] \<mapsto> Blob ''PNG-1'', productsFile env0 \<mapsto> Doc [rec2])"
proof -
  have u: "upload_single env0 disk0 (Some png_upload)
             = Some (Some ''image1.png'', disk0([''app'', ''uploads'', ''image1.png''] \<mapsto> Blob ''PNG-1''))"
    by (simp add: upload_single_def fileFilter_def startsWith_def filename_png Let_def)
       (simp add: png_upload_def env0_def disk0_def startup_def uploadsDir_def productsFile_def)
  have r: "readProducts env0 (disk0([''app'', ''uploads'', ''image1.png''] \<mapsto> Blob ''PNG-1'')) = []"
    by (simp add: model_defs)
  have p: "productData id io0 tn1_body (Some ''image1.png'') = rec2"
    by (simp add: rec2_def rec1_def model_defs)
  have w: "writeProducts env0 io0 (disk0([''app'', ''uploads'', ''image1.png''] \<mapsto> Blob ''PNG-1'')) [rec2]
     = (True, disk0([''app'', ''uploads'', ''image1.png''] \<mapsto> Blob ''PNG-1'', productsFile env0 \<mapsto> Doc [rec2]))"
    by (simp add: model_defs)
  show ?thesis
    by (simp add: disk2_def post_request_def u post_products_def r p w Let_def)
qed

lemma disk3_eq: "disk3 = disk0(productsFile env0 \<mapsto> Doc [rec3])"
proof -
  have p: "productData id io0 evil_body None = rec3"
    by (simp add: rec3_def rec1_def evil_body_def model_defs)
  have w: "writeProducts env0 io0 disk0 [rec3] = (True, disk0(productsFile env0 \<mapsto> Doc [rec3]))"
    by (simp add: model_defs)
  show ?thesis
    by (simp add: disk3_def post_request_def upload_single_def post_products_def
        readProducts_disk0 p w Let_def)
qed

lemma join_image1:
  "path_join (dirname env0) ''/uploads/image1.png'' = ([''app'', ''uploads'', ''image1.png''], False)"
  by (simp add: path_join_def env0_def)

lemma join_evil:
  "path_join (dirname env0) ''/uploads/../server.js'' = ([''app'', ''server.js''], False)"
  by (simp add: path_join_def env0_def)

lemma readProducts_disk2: "readProducts env0 disk2 = [rec2]"
  by (simp add: disk2_eq readProducts_def)

lemma readProducts_disk3: "readProducts env0 disk3 = [rec3]"
  by (simp add: disk3_eq readProducts_def)

lemma packageImage_rec2: "packageImage rec2 = ''/uploads/image1.png''"
  by (simp add: rec2_def)

lemma disk2_image: "disk2 [''app'', ''uploads'', ''image1.png''] = Some (Blob ''PNG-1'')"
  by (simp add: disk2_eq productsFile_def env0_def)

lemma deleteImage_disk2:
  "deleteImage env0 disk2 rec2 = Some (disk2([''app'', ''uploads'', ''image1.png''] := None))"
  by (simp add: deleteImage_def packageImage_rec2 join_image1 startsWith_def existsSync_def
      unlinkSync_def disk2_image Let_def)

lemma deleteImage_cases:
  assumes "deleteImage e d r = Some d1"
  shows "d1 = d \<or> d1 = d(fst (path_join (dirname e) (packageImage r)) := None)"
  using assms
  by (auto simp: deleteImage_def unlinkSync_def Let_def
      split: if_splits option.splits node.splits)

lemma deleteImage_external:
  "\<not> startsWith ''/uploads/'' (packageImage r) \<Longrightarrow> deleteImage e d r = Some d"
  by (simp add: deleteImage_def)

lemma deleteImage_absent:
  "\<not> existsSync d (path_join (dirname e) (packageImage r)) \<Longrightarrow> deleteImage e d r = Some d"
  by (simp add: deleteImage_def Let_def)

lemma found_is_Doc:
  assumes "findIndex P (readProducts e d) = Some i"
  shows "d (productsFile e) = Some (Doc (readProducts e d))"
proof -
  from assms have "readProducts e d \<noteq> []" by auto
  then show ?thesis
    by (auto simp: readProducts_def split: option.splits node.splits)
qed

lemma writeProducts_after_deleteImage:
  assumes "d (productsFile e) = Some (Doc ps)" and "deleteImage e d r = Some d1"
    and "\<not> write_fails w"
  shows "writeProducts e w d1 qs = (True, d1(productsFile e \<mapsto> Doc qs))"
proof -
  from deleteImage_cases [OF assms(2)] assms(1)
  have "d1 (productsFile e) \<noteq> Some Dir" by (auto split: if_splits)
  with assms(3) show ?thesis
    by (auto simp: writeProducts_def split: option.splits node.splits)
qed

section \<open>Deleting a record\<close>

text \<open>
  Claim C4, as the handler does it.  For an absent key the answer is 404,
  \<open>Product not found\<close>, and the disk is untouched.  For an existing key, when the
  clean-up of the image does not throw and the write does not throw, the first record
  with that key is taken out of the collection, its image is cleaned up, the remaining
  collection is written, and the caller is answered 200 with the message
  \<open>Product deleted successfully\<close>.  The removed record stays inside the handler, where
  it selects the image to clean up; it is not what the caller receives.
\<close>

theorem delete_removes_record:
  "(findIndex (\<lambda>p. trackingNumber p = tn) (readProducts e d) = None \<longrightarrow>
      delete_products e w d tn = ((404, Error_json ''Product not found''), d)) \<and>
   (findIndex (\<lambda>p. trackingNumber p = tn) (readProducts e d) = Some i \<and>
    deleteImage e d (readProducts e d ! i) \<noteq> None \<and> \<not> write_fails w \<longrightarrow>
      (\<exists>d1. deleteImage e d (readProducts e d ! i) = Some d1 \<and>
        delete_products e w d tn
          = ((200, Message_json ''Product deleted successfully''),
             d1(productsFile e \<mapsto>
                  Doc (take i (readProducts e d) @ drop (Suc i) (readProducts e d))))) \<and>
      readProducts e (snd (delete_products e w d tn))
        = take i (readProducts e d) @ drop (Suc i) (readProducts e d))"
proof (intro conjI impI)
  assume "findIndex (\<lambda>p. trackingNumber p = tn) (readProducts e d) = None"
  then show "delete_products e w d tn = ((404, Error_json ''Product not found''), d)"
    by (simp add: delete_products_def)
next
  assume a: "findIndex (\<lambda>p. trackingNumber p = tn) (readProducts e d) = Some i \<and>
    deleteImage e d (readProducts e d ! i) \<noteq> None \<and> \<not> write_fails w"
  then obtain d1 where d1: "deleteImage e d (readProducts e d ! i) = Some d1" by auto
  let ?rest = "take i (readProducts e d) @ drop (Suc i) (readProducts e d)"
  from a have fi: "findIndex (\<lambda>p. trackingNumber p = tn) (readProducts e d) = Some i"
    by simp
  have doc: "d (productsFile e) = Some (Doc (readProducts e d))"
    using fi by (rule found_is_Doc)
  from a have "\<not> write_fails w" by simp
  from writeProducts_after_deleteImage [OF doc d1 this]
  have "writeProducts e w d1 ?rest = (True, d1(productsFile e \<mapsto> Doc ?rest))" .
  with a d1 have p: "delete_products e w d tn
      = ((200, Message_json ''Product deleted successfully''), d1(productsFile e \<mapsto> Doc ?rest))"
    by (simp add: delete_products_def Let_def)
  from p d1 show "\<exists>d1. deleteImage e d (readProducts e d ! i) = Some d1 \<and>
        delete_products e w d tn
          = ((200, Message_json ''Product deleted successfully''),
             d1(productsFile e \<mapsto> Doc ?rest))"
    by simp
  from p show "readProducts e (snd (delete_products e w d tn)) = ?rest"
    by (simp add: readProducts_def)
qed

theorem delete_removes_record_witness:
  "findIndex (\<lambda>p. trackingNumber p = ''TN1'') (readProducts env0 disk2) = Some 0 \<and>
   findIndex (\<lambda>p. trackingNumber p = ''TN9'') (readProducts env0 disk2) = None \<and>
   deleteImage env0 disk2 (readProducts env0 disk2 ! 0) \<noteq> None \<and> \<not> write_fails io0 \<and>
   fst (delete_products env0 io0 disk2 ''TN1'') = (200, Message_json ''Product deleted successfully'') \<and>
   readProducts env0 (snd (delete_products env0 io0 disk2 ''TN1'')) = [] \<and>
   delete_products env0 io0 disk2 ''TN9'' = ((404, Error_json ''Product not found''), disk2)"
proof -
  have h1: "findIndex (\<lambda>p. trackingNumber p = ''TN1'') (readProducts env0 disk2) = Some 0"
    by (simp add: readProducts_disk2) (simp add: rec2_def rec1_def)
  have h2: "findIndex (\<lambda>p. trackingNumber p = ''TN9'') (readProducts env0 disk2) = None"
    by (simp add: readProducts_disk2) (simp add: rec2_def rec1_def)
  have h3: "deleteImage env0 disk2 (readProducts env0 disk2 ! 0) \<noteq> None"
    by (simp add: readProducts_disk2 deleteImage_disk2)
  have h4: "\<not> write_fails io0" by (simp add: io0_def)
  from delete_removes_record [of "''TN1''" env0 disk2 io0 0] h1 h3 h4
  have c1: "fst (delete_products env0 io0 disk2 ''TN1'') = (200, Message_json ''Product deleted successfully'') \<and>
   readProducts env0 (snd (delete_products env0 io0 disk2 ''TN1'')) = []"
    by (auto simp: readProducts_disk2)
  from delete_removes_record [of "''TN9''" env0 disk2 io0 0] h2
  have c2: "delete_products env0 io0 disk2 ''TN9'' = ((404, Error_json ''Product not found''), disk2)"
    by blast
  from h1 h2 h3 h4 c1 c2 show ?thesis by blast
qed

text \<open>The caller of a successful delete receives the message, not the record.\<close>

theorem delete_reply_counterexample:
  "readProducts env0 disk1 = [rec1] \<and>
   fst (delete_products env0 io0 disk1 ''TN1'') = (200, Message_json ''Product deleted successfully'') \<and>
   fst (delete_products env0 io0 disk1 ''TN1'') \<noteq> (200, Product_json rec1)"
proof -
  have h1: "findIndex (\<lambda>p. trackingNumber p = ''TN1'') (readProducts env0 disk1) = Some 0"
    by (simp add: readProducts_disk1_rec1) (simp add: rec1_def)
  have "\<not> startsWith ''/uploads/'' (packageImage rec1)"
    by (simp add: rec1_def startsWith_def)
  then have h3: "deleteImage env0 disk1 rec1 = Some disk1"
    by (rule deleteImage_external)
  have w: "writeProducts env0 io0 disk1 [] = (True, disk1(productsFile env0 \<mapsto> Doc []))"
    by (simp add: writeProducts_def io0_def disk1_productsFile)
  have "fst (delete_products env0 io0 disk1 ''TN1'') = (200, Message_json ''Product deleted successfully'')"
    by (simp add: delete_products_def h1 Let_def) (simp add: readProducts_disk1_rec1 h3 w)
  then show ?thesis by (simp add: readProducts_disk1_rec1)
qed

section \<open>Cleaning up the image\<close>

text \<open>
  Claim C9.  The clean-up leaves the disk alone for a reference that does not start with
  \<open>/uploads/\<close> and for a path that does not exist (the two lemmas above on
  \<open>deleteImage\<close>).  The prefix test is made on the text of the reference, before
  \<open>path.join\<close> resolves \<open>..\<close>: a record inserted with the image URL
  \<open>/uploads/../server.js\<close> makes delete unlink \<open>server.js\<close> in the server's own
  directory, outside the uploads directory.
\<close>

theorem delete_unlinks_outside_uploads:
  "disk3 = inserts id env0 disk0 [(io0, None, evil_body)] \<and>
   body_imageUrl evil_body = Some ''/uploads/../server.js'' \<and>
   readProducts env0 disk3 = [rec3] \<and>
   packageImage rec3 = ''/uploads/../server.js'' \<and>
   disk3 [''app'', ''server.js''] = Some (Blob ''const express'') \<and>
   fst (delete_products env0 io0 disk3 ''TN1'') = (200, Message_json ''Product deleted successfully'') \<and>
   snd (delete_products env0 io0 disk3 ''TN1'') [''app'', ''server.js''] = None"
proof -
  have h1: "findIndex (\<lambda>p. trackingNumber p = ''TN1'') (readProducts env0 disk3) = Some 0"
    by (simp add: readProducts_disk3) (simp add: rec3_def rec1_def)
  have pi: "packageImage rec3 = ''/uploads/../server.js''" by (simp add: rec3_def)
  have f: "disk3 [''app'', ''server.js''] = Some (Blob ''const express'')"
    by (simp add: disk3_eq disk0_def startup_def uploadsDir_def productsFile_def env0_def)
  have di: "deleteImage env0 disk3 rec3 = Some (disk3([''app'', ''server.js''] := None))"
    by (simp add: deleteImage_def pi join_evil startsWith_def existsSync_def unlinkSync_def f Let_def)
  have w: "writeProducts env0 io0 (disk3([''app'', ''server.js''] := None)) []
     = (True, (disk3([''app'', ''server.js''] := None))(productsFile env0 \<mapsto> Doc []))"
    by (simp add: writeProducts_def io0_def disk3_eq productsFile_def env0_def)
  have p: "delete_products env0 io0 disk3 ''TN1''
     = ((200, Message_json ''Product deleted successfully''),
        (disk3([''app'', ''server.js''] := None))(productsFile env0 \<mapsto> Doc []))"
    by (simp add: delete_products_def h1 Let_def) (simp add: readProducts_disk3 di w)
  have q: "((disk3([''app'', ''server.js''] := None))(productsFile env0 \<mapsto> Doc []))
             [''app'', ''server.js''] = None"
    by (simp add: productsFile_def env0_def)
  have b: "body_imageUrl evil_body = Some ''/uploads/../server.js''"
    by (simp add: evil_body_def)
  have i: "disk3 = inserts id env0 disk0 [(io0, None, evil_body)]"
    by (rule disk3_def)
  have r: "readProducts env0 disk3 = [rec3]"
    by (rule readProducts_disk3)
  from p have p1: "fst (delete_products env0 io0 disk3 ''TN1'')
      = (200, Message_json ''Product deleted successfully'')"
    by simp
  from p q have p2: "snd (delete_products env0 io0 disk3 ''TN1'') [''app'', ''server.js''] = None"
    by simp
  from i b r pi f p1 p2 show ?thesis by blast
qed

section \<open>Failing writes\<close>
















section \<open>Images of updated records\<close>













lemma disk4_image1: "disk4 [''app'', ''uploads'', ''image1.png''] = Some (Blob ''PNG-1'')"
  by (simp add: disk4_def disk2_eq productsFile_def env0_def)






end
